theory Spec2Isabelle
  imports Complex_Main "HOL-Library.Stream"
begin

section \<open>Cell identity keys and models of ichnaea/models/cell.py\<close>

subsection \<open>Python values, exceptions and sources\<close>

text \<open>
  The values that travel through the key constructors and the entity constructors:
  \<^verbatim>\<open>None\<close>, booleans, integers, strings and the datetimes returned by
  \<^verbatim>\<open>util.utcnow()\<close> (a datetime is its number of microseconds since the epoch).
\<close>

datatype pyval = PNone | PBool bool | PInt int | PStr string | PDatetime int

text \<open>Python's truth value of an object, as \<^verbatim>\<open>not kw['lac']\<close> tests it.\<close>

fun truthy :: "pyval \<Rightarrow> bool" where
  "truthy PNone = False"
| "truthy (PBool b) = b"
| "truthy (PInt n) = (n \<noteq> 0)"
| "truthy (PStr s) = (s \<noteq> [])"
| "truthy (PDatetime t) = True"

text \<open>
  The exceptions the code can raise: subscripting a dict with a missing key raises
  \<^verbatim>\<open>KeyError\<close>, reading a missing attribute raises \<^verbatim>\<open>AttributeError\<close>; both name the
  key or attribute. \<^verbatim>\<open>ZeroDivisionError\<close> belongs to the geographic calculation.
\<close>

datatype error = KeyError string | AttributeError string | ZeroDivisionError

type_synonym fields = "string \<rightharpoonup> pyval"

text \<open>
  The argument of \<^verbatim>\<open>to_cellkey\<close>: a dict, recognised by \<^verbatim>\<open>isinstance(obj, dict)\<close>, or
  any other object, read through its attributes.
\<close>

datatype source = Dict fields | Object fields

definition getitem :: "fields \<Rightarrow> string \<Rightarrow> error + pyval" where
  "getitem d name = (case d name of None \<Rightarrow> Inl (KeyError name) | Some v \<Rightarrow> Inr v)"

definition getattr :: "fields \<Rightarrow> string \<Rightarrow> error + pyval" where
  "getattr a name = (case a name of None \<Rightarrow> Inl (AttributeError name) | Some v \<Rightarrow> Inr v)"

text \<open>Sequencing of evaluations that may raise: the first exception ends the evaluation.\<close>

definition bind_result :: "error + 'a \<Rightarrow> ('a \<Rightarrow> error + 'b) \<Rightarrow> error + 'b" where
  "bind_result r f = (case r of Inl e \<Rightarrow> Inl e | Inr v \<Rightarrow> f v)"

subsection \<open>The key types\<close>

text \<open>
  \<^verbatim>\<open>CellKey = namedtuple('CellKey', 'radio mcc mnc lac cid')\<close>,
  \<^verbatim>\<open>CellKeyPsc = namedtuple('CellKey', 'radio mcc mnc lac cid psc')\<close>,
  \<^verbatim>\<open>CellAreaKey = namedtuple('CellAreaKey', 'radio mcc mnc lac')\<close>:
  three distinct classes of immutable tuples with named fields.
\<close>

datatype key =
    CellKey pyval pyval pyval pyval pyval
  | CellKeyPsc pyval pyval pyval pyval pyval pyval
  | CellAreaKey pyval pyval pyval pyval

text \<open>The named fields of a key, which are the attributes a namedtuple exposes.\<close>

fun key_fields :: "key \<Rightarrow> fields" where
  "key_fields (CellKey radio mcc mnc lac cid) =
     [''radio'' \<mapsto> radio, ''mcc'' \<mapsto> mcc, ''mnc'' \<mapsto> mnc, ''lac'' \<mapsto> lac, ''cid'' \<mapsto> cid]"
| "key_fields (CellKeyPsc radio mcc mnc lac cid psc) =
     [''radio'' \<mapsto> radio, ''mcc'' \<mapsto> mcc, ''mnc'' \<mapsto> mnc, ''lac'' \<mapsto> lac, ''cid'' \<mapsto> cid,
      ''psc'' \<mapsto> psc]"
| "key_fields (CellAreaKey radio mcc mnc lac) =
     [''radio'' \<mapsto> radio, ''mcc'' \<mapsto> mcc, ''mnc'' \<mapsto> mnc, ''lac'' \<mapsto> lac]"

text \<open>A key handed to \<^verbatim>\<open>to_cellkey\<close> is not a dict: it is read through its attributes.\<close>

definition key_as_source :: "key \<Rightarrow> source" where
  "key_as_source k = Object (key_fields k)"

definition key_getattr :: "key \<Rightarrow> string \<Rightarrow> error + pyval" where
  "key_getattr k name = getattr (key_fields k) name"

definition key_hasattr :: "key \<Rightarrow> string \<Rightarrow> bool" where
  "key_hasattr k name = (key_fields k name \<noteq> None)"

text \<open>\<^verbatim>\<open>isinstance(k, CellKeyPsc)\<close>.\<close>

fun isinstance_CellKeyPsc :: "key \<Rightarrow> bool" where
  "isinstance_CellKeyPsc (CellKeyPsc radio mcc mnc lac cid psc) = True"
| "isinstance_CellKeyPsc k = False"

subsection \<open>Key normalisation\<close>

text \<open>
  \<^verbatim>\<open>to_cellkey(obj)\<close>: the five keyword arguments are evaluated from left to right, by
  subscripting when \<^verbatim>\<open>obj\<close> is a dict and by attribute access otherwise.
\<close>

definition to_cellkey :: "source \<Rightarrow> error + key" where
  "to_cellkey obj =
     (case obj of
        Dict d \<Rightarrow>
          bind_result (getitem d ''radio'') (\<lambda>radio.
          bind_result (getitem d ''mcc'') (\<lambda>mcc.
          bind_result (getitem d ''mnc'') (\<lambda>mnc.
          bind_result (getitem d ''lac'') (\<lambda>lac.
          bind_result (getitem d ''cid'') (\<lambda>cid.
          Inr (CellKey radio mcc mnc lac cid))))))
      | Object a \<Rightarrow>
          bind_result (getattr a ''radio'') (\<lambda>radio.
          bind_result (getattr a ''mcc'') (\<lambda>mcc.
          bind_result (getattr a ''mnc'') (\<lambda>mnc.
          bind_result (getattr a ''lac'') (\<lambda>lac.
          bind_result (getattr a ''cid'') (\<lambda>cid.
          Inr (CellKey radio mcc mnc lac cid)))))))"

definition to_cellkey_psc :: "source \<Rightarrow> error + key" where
  "to_cellkey_psc obj =
     (case obj of
        Dict d \<Rightarrow>
          bind_result (getitem d ''radio'') (\<lambda>radio.
          bind_result (getitem d ''mcc'') (\<lambda>mcc.
          bind_result (getitem d ''mnc'') (\<lambda>mnc.
          bind_result (getitem d ''lac'') (\<lambda>lac.
          bind_result (getitem d ''cid'') (\<lambda>cid.
          bind_result (getitem d ''psc'') (\<lambda>psc.
          Inr (CellKeyPsc radio mcc mnc lac cid psc)))))))
      | Object a \<Rightarrow>
          bind_result (getattr a ''radio'') (\<lambda>radio.
          bind_result (getattr a ''mcc'') (\<lambda>mcc.
          bind_result (getattr a ''mnc'') (\<lambda>mnc.
          bind_result (getattr a ''lac'') (\<lambda>lac.
          bind_result (getattr a ''cid'') (\<lambda>cid.
          bind_result (getattr a ''psc'') (\<lambda>psc.
          Inr (CellKeyPsc radio mcc mnc lac cid psc))))))))"

text \<open>The field names the two constructors read, in the order they read them.\<close>

definition cellkey_names :: "string list" where
  "cellkey_names = [''radio'', ''mcc'', ''mnc'', ''lac'', ''cid'']"

definition cellkey_psc_names :: "string list" where
  "cellkey_psc_names = [''radio'', ''mcc'', ''mnc'', ''lac'', ''cid'', ''psc'']"

text \<open>The first name of a list that a source does not have.\<close>

definition first_missing :: "string list \<Rightarrow> fields \<Rightarrow> string option" where
  "first_missing names f = find (\<lambda>n. f n = None) names"

text \<open>The example source of the specification, with all six fields.\<close>

definition example_fields :: fields where
  "example_fields =
     [''radio'' \<mapsto> PInt 1, ''mcc'' \<mapsto> PInt 204, ''mnc'' \<mapsto> PInt 10, ''lac'' \<mapsto> PInt 1234,
      ''cid'' \<mapsto> PInt 5678, ''psc'' \<mapsto> PInt 99]"

subsection \<open>The models and the join criterion\<close>

text \<open>
  A model is a mapped class: its table name and the names of the column attributes it
  declares or inherits. The attribute \<^verbatim>\<open>model.radio\<close> is the column of that name in the
  model's table.
\<close>

datatype column = Column string string

record model =
  tablename :: string
  columns :: "string list"

text \<open>\<^verbatim>\<open>getattr(model, name, None)\<close>: the attribute, or \<^verbatim>\<open>None\<close> when the class has none.\<close>

definition model_attr :: "model \<Rightarrow> string \<Rightarrow> column option" where
  "model_attr m name =
     (if name \<in> set (columns m) then Some (Column (tablename m) name) else None)"

text \<open>\<^verbatim>\<open>model.name\<close>, which raises when the class has no such attribute.\<close>

definition model_getattr :: "model \<Rightarrow> string \<Rightarrow> error + column" where
  "model_getattr m name =
     (case model_attr m name of None \<Rightarrow> Inl (AttributeError name) | Some c \<Rightarrow> Inr c)"

definition model_hasattr :: "model \<Rightarrow> string \<Rightarrow> bool" where
  "model_hasattr m name = (model_attr m name \<noteq> None)"

text \<open>The expression \<^verbatim>\<open>model.radio == k.radio\<close>: a column compared with a value.\<close>

datatype criterion = Eq column pyval

text \<open>
  \<^verbatim>\<open>join_cellkey(model, k)\<close>. The four comparisons of the first tuple are built from left
  to right, each reading the model's attribute and then the key's; the psc comparison
  is appended when \<^verbatim>\<open>k\<close> is a \<^verbatim>\<open>CellKeyPsc\<close> and \<^verbatim>\<open>getattr(model, 'psc', None)\<close> is not
  \<^verbatim>\<open>None\<close>; the cid comparison is appended when both sides have a cid attribute.
\<close>

definition join_cellkey :: "model \<Rightarrow> key \<Rightarrow> error + criterion list" where
  "join_cellkey m k =
     bind_result (model_getattr m ''radio'') (\<lambda>m_radio.
     bind_result (key_getattr k ''radio'') (\<lambda>k_radio.
     bind_result (model_getattr m ''mcc'') (\<lambda>m_mcc.
     bind_result (key_getattr k ''mcc'') (\<lambda>k_mcc.
     bind_result (model_getattr m ''mnc'') (\<lambda>m_mnc.
     bind_result (key_getattr k ''mnc'') (\<lambda>k_mnc.
     bind_result (model_getattr m ''lac'') (\<lambda>m_lac.
     bind_result (key_getattr k ''lac'') (\<lambda>k_lac.
     bind_result (Inr [Eq m_radio k_radio, Eq m_mcc k_mcc, Eq m_mnc k_mnc, Eq m_lac k_lac])
       (\<lambda>criterion.
     bind_result
       (if isinstance_CellKeyPsc k \<and> model_attr m ''psc'' \<noteq> None
        then bind_result (model_getattr m ''psc'') (\<lambda>m_psc.
             bind_result (key_getattr k ''psc'') (\<lambda>k_psc.
             Inr (criterion @ [Eq m_psc k_psc])))
        else Inr criterion)
       (\<lambda>criterion.
     if model_hasattr m ''cid'' \<and> key_hasattr k ''cid''
     then bind_result (model_getattr m ''cid'') (\<lambda>m_cid.
          bind_result (key_getattr k ''cid'') (\<lambda>k_cid.
          Inr (criterion @ [Eq m_cid k_cid])))
     else Inr criterion))))))))))"

text \<open>
  The column attributes declared in this file, along the mixin chain
  \<^verbatim>\<open>CellAreaKeyMixin\<close>, \<^verbatim>\<open>CellKeyMixin\<close>, \<^verbatim>\<open>CellKeyPscMixin\<close> and \<^verbatim>\<open>CellAreaMixin\<close>. The
  position, time and station mixins come from other modules and add no identity column.
\<close>

definition CellAreaKeyMixin :: "string list" where
  "CellAreaKeyMixin = [''radio'', ''mcc'', ''mnc'', ''lac'']"

definition CellAreaMixin :: "string list" where
  "CellAreaMixin = CellAreaKeyMixin @ [''range'', ''avg_cell_range'', ''num_cells'']"

definition CellKeyMixin :: "string list" where
  "CellKeyMixin = CellAreaKeyMixin @ [''cid'']"

definition CellKeyPscMixin :: "string list" where
  "CellKeyPscMixin = CellKeyMixin @ [''psc'']"

definition Cell :: model where
  "Cell = \<lparr>tablename = ''cell'', columns = CellKeyPscMixin\<rparr>"

definition OCIDCell :: model where
  "OCIDCell = \<lparr>tablename = ''ocid_cell'', columns = CellKeyPscMixin @ [''changeable'']\<rparr>"

definition CellArea :: model where
  "CellArea = \<lparr>tablename = ''cell_area'', columns = CellAreaMixin\<rparr>"

definition OCIDCellArea :: model where
  "OCIDCellArea = \<lparr>tablename = ''ocid_cell_area'', columns = CellAreaMixin\<rparr>"

definition CellBlacklist :: model where
  "CellBlacklist = \<lparr>tablename = ''cell_blacklist'', columns = CellKeyMixin\<rparr>"

subsection \<open>The entity constructors\<close>

text \<open>
  \<^verbatim>\<open>util.utcnow()\<close> reads the clock. The clock is the stream of the readings still to
  come: a call returns the first and leaves the rest.
\<close>

type_synonym clock = "int stream"

definition utcnow :: "clock \<Rightarrow> pyval \<times> clock" where
  "utcnow c = (PDatetime (shd c), stl c)"

text \<open>A clock that starts at \<open>t\<close> and advances by one microsecond per reading.\<close>

definition clock_at :: "int \<Rightarrow> clock" where
  "clock_at t = siterate (\<lambda>x. x + 1) t"

type_synonym kwargs = "string \<rightharpoonup> pyval"

text \<open>\<^verbatim>\<open>if name not in kw: kw[name] = util.utcnow()\<close>\<close>

definition default_utcnow :: "string \<Rightarrow> kwargs \<times> clock \<Rightarrow> kwargs \<times> clock" where
  "default_utcnow name s =
     (case s of (kw, c) \<Rightarrow>
        if kw name = None then (case utcnow c of (t, c') \<Rightarrow> (kw(name \<mapsto> t), c'))
        else (kw, c))"

text \<open>\<^verbatim>\<open>if name not in kw or not kw[name]: kw[name] = 0\<close>\<close>

definition default_zero_if_falsy :: "string \<Rightarrow> kwargs \<Rightarrow> kwargs" where
  "default_zero_if_falsy name kw =
     (case kw name of
        None \<Rightarrow> kw(name \<mapsto> PInt 0)
      | Some v \<Rightarrow> if truthy v then kw else kw(name \<mapsto> PInt 0))"

text \<open>\<^verbatim>\<open>if name not in kw: kw[name] = v\<close>\<close>

definition default_if_absent :: "string \<Rightarrow> pyval \<Rightarrow> kwargs \<Rightarrow> kwargs" where
  "default_if_absent name v kw = (if kw name = None then kw(name \<mapsto> v) else kw)"

text \<open>
  Each \<^verbatim>\<open>__init__\<close> completes the keyword arguments and hands them, with the positional
  arguments untouched, to the constructor of the base class, which stores every keyword
  argument in the field of its name. The functions return the completed keyword
  arguments, which are the stored values, and the clock left after the readings taken.
  A field that is not among them is unset.
\<close>

definition Cell_init :: "clock \<Rightarrow> kwargs \<Rightarrow> kwargs \<times> clock" where
  "Cell_init c kw =
     (case default_utcnow ''modified'' (default_utcnow ''created'' (kw, c)) of
        (kw', c') \<Rightarrow>
          (default_if_absent ''total_measures'' (PInt 0)
            (default_if_absent ''new_measures'' (PInt 0)
              (default_if_absent ''range'' (PInt 0)
                (default_zero_if_falsy ''cid''
                  (default_zero_if_falsy ''lac'' kw')))), c'))"

definition OCIDCell_init :: "clock \<Rightarrow> kwargs \<Rightarrow> kwargs \<times> clock" where
  "OCIDCell_init c kw =
     (case default_utcnow ''modified'' (default_utcnow ''created'' (kw, c)) of
        (kw', c') \<Rightarrow>
          (default_if_absent ''changeable'' (PBool True)
            (default_if_absent ''total_measures'' (PInt 0)
              (default_if_absent ''range'' (PInt 0)
                (default_zero_if_falsy ''cid''
                  (default_zero_if_falsy ''lac'' kw')))), c'))"

definition CellArea_init :: "clock \<Rightarrow> kwargs \<Rightarrow> kwargs \<times> clock" where
  "CellArea_init c kw =
     (case default_utcnow ''modified'' (default_utcnow ''created'' (kw, c)) of
        (kw', c') \<Rightarrow>
          (default_if_absent ''num_cells'' (PInt 0)
            (default_if_absent ''avg_cell_range'' (PInt 0)
              (default_if_absent ''range'' (PInt 0) kw')), c'))"

definition OCIDCellArea_init :: "clock \<Rightarrow> kwargs \<Rightarrow> kwargs \<times> clock" where
  "OCIDCellArea_init c kw =
     (case default_utcnow ''modified'' (default_utcnow ''created'' (kw, c)) of
        (kw', c') \<Rightarrow>
          (default_if_absent ''num_cells'' (PInt 0)
            (default_if_absent ''avg_cell_range'' (PInt 0)
              (default_if_absent ''range'' (PInt 0) kw')), c'))"

definition CellBlacklist_init :: "clock \<Rightarrow> kwargs \<Rightarrow> kwargs \<times> clock" where
  "CellBlacklist_init c kw =
     (case default_utcnow ''time'' (kw, c) of
        (kw', c') \<Rightarrow> (default_if_absent ''count'' (PInt 1) kw', c'))"

text \<open>
  Keyword arguments that supply the timestamps: created and modified for a Cell, time
  for a CellBlacklist.
\<close>

definition cell_timestamps :: kwargs where
  "cell_timestamps = [''created'' \<mapsto> PDatetime 1, ''modified'' \<mapsto> PDatetime 2]"

definition blacklist_time :: kwargs where
  "blacklist_time = [''time'' \<mapsto> PDatetime 3]"

subsection \<open>The bounding box of an OCIDCell\<close>

text \<open>
  Modelled from the spec: the module \<^verbatim>\<open>ichnaea.geocalc\<close> is not among the sources. The
  specification gives the latitude offset of a distance in meters as the distance divided
  by a constant number of meters per degree of latitude, about 111320, and the longitude
  offset as the distance divided by that constant times the cosine of the latitude in
  radians. Over the real numbers the second division is undefined where the cosine
  vanishes, which is written out as an error.
\<close>

definition meters_per_degree_latitude :: real where
  "meters_per_degree_latitude = 111320"

definition add_meters_to_latitude :: "real \<Rightarrow> real \<Rightarrow> real" where
  "add_meters_to_latitude lat distance = lat + distance / meters_per_degree_latitude"

definition add_meters_to_longitude :: "real \<Rightarrow> real \<Rightarrow> real \<Rightarrow> error + real" where
  "add_meters_to_longitude lat lon distance =
     (if meters_per_degree_latitude * cos (lat * pi / 180) = 0 then Inl ZeroDivisionError
      else Inr (lon + distance / (meters_per_degree_latitude * cos (lat * pi / 180))))"

text \<open>
  The fields of an OCIDCell that its four properties read; the extension of the record
  stands for the other fields of the entity.
\<close>

record ocid_cell =
  lat :: real
  lon :: real
  range_meters :: int

definition min_lat :: "'a ocid_cell_scheme \<Rightarrow> real" where
  "min_lat self = add_meters_to_latitude (lat self) (real_of_int (- range_meters self))"

definition max_lat :: "'a ocid_cell_scheme \<Rightarrow> real" where
  "max_lat self = add_meters_to_latitude (lat self) (real_of_int (range_meters self))"

definition min_lon :: "'a ocid_cell_scheme \<Rightarrow> error + real" where
  "min_lon self =
     add_meters_to_longitude (lat self) (lon self) (real_of_int (- range_meters self))"

definition max_lon :: "'a ocid_cell_scheme \<Rightarrow> error + real" where
  "max_lon self =
     add_meters_to_longitude (lat self) (lon self) (real_of_int (range_meters self))"

section \<open>Properties\<close>

subsection \<open>Key normalisation\<close>

lemma getitem_Some: "d name = Some v \<Longrightarrow> getitem d name = Inr v"
  by (simp add: getitem_def)

lemma getattr_Some: "a name = Some v \<Longrightarrow> getattr a name = Inr v"
  by (simp add: getattr_def)

lemma bind_result_Inr: "bind_result (Inr v) f = f v"
  by (simp add: bind_result_def)

lemma bind_result_Inl: "bind_result (Inl e) f = Inl e"
  by (simp add: bind_result_def)

text \<open>
  C2. A source that has the five fields radio, mcc, mnc, lac and cid, dict or object alike,
  gives the CellKey of these five values; both shapes give the same key, and a further
  field such as psc changes nothing.
\<close>

theorem to_cellkey_fields:
  assumes "f ''radio'' = Some radio" and "f ''mcc'' = Some mcc" and "f ''mnc'' = Some mnc"
    and "f ''lac'' = Some lac" and "f ''cid'' = Some cid"
  shows "to_cellkey (Dict f) = Inr (CellKey radio mcc mnc lac cid)
       \<and> to_cellkey (Object f) = Inr (CellKey radio mcc mnc lac cid)
       \<and> to_cellkey (Dict (f(''psc'' := p))) = to_cellkey (Dict f)
       \<and> to_cellkey (Object (f(''psc'' := p))) = to_cellkey (Object f)"
  using assms
  by (simp add: to_cellkey_def getitem_Some getattr_Some bind_result_Inr)

theorem to_cellkey_fields_witness:
  "to_cellkey (Dict example_fields) = Inr (CellKey (PInt 1) (PInt 204) (PInt 10) (PInt 1234) (PInt 5678))
 \<and> to_cellkey (Object example_fields) = Inr (CellKey (PInt 1) (PInt 204) (PInt 10) (PInt 1234) (PInt 5678))
 \<and> to_cellkey (Dict (example_fields(''psc'' := None))) = to_cellkey (Dict example_fields)
 \<and> to_cellkey (Object (example_fields(''psc'' := None))) = to_cellkey (Object example_fields)"
  using to_cellkey_fields [of example_fields "PInt 1" "PInt 204" "PInt 10" "PInt 1234" "PInt 5678" None]
  by (simp add: example_fields_def)

text \<open>
  C9. A CellKey read back as a field-bearing source is normalised to itself.
\<close>

theorem to_cellkey_roundtrip:
  "to_cellkey (key_as_source (CellKey radio mcc mnc lac cid)) = Inr (CellKey radio mcc mnc lac cid)"
  by (simp add: to_cellkey_def key_as_source_def getattr_def bind_result_def)

text \<open>The outcome of each constructor on each shape, by the first name that is missing.\<close>

lemma to_cellkey_Dict:
  "to_cellkey (Dict f) =
     (case first_missing cellkey_names f of
        Some n \<Rightarrow> Inl (KeyError n)
      | None \<Rightarrow> Inr (CellKey (the (f ''radio'')) (the (f ''mcc'')) (the (f ''mnc''))
                      (the (f ''lac'')) (the (f ''cid''))))"
  by (auto simp: to_cellkey_def first_missing_def cellkey_names_def getitem_def bind_result_def
      split: option.splits)

lemma to_cellkey_Object:
  "to_cellkey (Object f) =
     (case first_missing cellkey_names f of
        Some n \<Rightarrow> Inl (AttributeError n)
      | None \<Rightarrow> Inr (CellKey (the (f ''radio'')) (the (f ''mcc'')) (the (f ''mnc''))
                      (the (f ''lac'')) (the (f ''cid''))))"
  by (auto simp: to_cellkey_def first_missing_def cellkey_names_def getattr_def bind_result_def
      split: option.splits)

lemma to_cellkey_psc_Dict:
  "to_cellkey_psc (Dict f) =
     (case first_missing cellkey_psc_names f of
        Some n \<Rightarrow> Inl (KeyError n)
      | None \<Rightarrow> Inr (CellKeyPsc (the (f ''radio'')) (the (f ''mcc'')) (the (f ''mnc''))
                      (the (f ''lac'')) (the (f ''cid'')) (the (f ''psc''))))"
  by (auto simp: to_cellkey_psc_def first_missing_def cellkey_psc_names_def getitem_def
      bind_result_def split: option.splits)

lemma to_cellkey_psc_Object:
  "to_cellkey_psc (Object f) =
     (case first_missing cellkey_psc_names f of
        Some n \<Rightarrow> Inl (AttributeError n)
      | None \<Rightarrow> Inr (CellKeyPsc (the (f ''radio'')) (the (f ''mcc'')) (the (f ''mnc''))
                      (the (f ''lac'')) (the (f ''cid'')) (the (f ''psc''))))"
  by (auto simp: to_cellkey_psc_def first_missing_def cellkey_psc_names_def getattr_def
      bind_result_def split: option.splits)

lemma first_missing_None: "(first_missing names f = None) = (set names \<subseteq> dom f)"
  by (auto simp: first_missing_def find_None_iff)

text \<open>
  C3, as the code has it. Each constructor fails exactly when one of its required fields
  (five for \<^verbatim>\<open>to_cellkey\<close>, six for \<^verbatim>\<open>to_cellkey_psc\<close>) is missing from the source, and
  the exception names the first missing field in the order the fields are read. A dict
  fails with \<^verbatim>\<open>KeyError\<close> and any other object with \<^verbatim>\<open>AttributeError\<close>.
\<close>

theorem to_cellkey_missing_field:
  "to_cellkey (Dict f) =
     (case first_missing cellkey_names f of
        Some n \<Rightarrow> Inl (KeyError n)
      | None \<Rightarrow> Inr (CellKey (the (f ''radio'')) (the (f ''mcc'')) (the (f ''mnc''))
                      (the (f ''lac'')) (the (f ''cid''))))
 \<and> to_cellkey (Object f) =
     (case first_missing cellkey_names f of
        Some n \<Rightarrow> Inl (AttributeError n)
      | None \<Rightarrow> Inr (CellKey (the (f ''radio'')) (the (f ''mcc'')) (the (f ''mnc''))
                      (the (f ''lac'')) (the (f ''cid''))))
 \<and> to_cellkey_psc (Dict f) =
     (case first_missing cellkey_psc_names f of
        Some n \<Rightarrow> Inl (KeyError n)
      | None \<Rightarrow> Inr (CellKeyPsc (the (f ''radio'')) (the (f ''mcc'')) (the (f ''mnc''))
                      (the (f ''lac'')) (the (f ''cid'')) (the (f ''psc''))))
 \<and> to_cellkey_psc (Object f) =
     (case first_missing cellkey_psc_names f of
        Some n \<Rightarrow> Inl (AttributeError n)
      | None \<Rightarrow> Inr (CellKeyPsc (the (f ''radio'')) (the (f ''mcc'')) (the (f ''mnc''))
                      (the (f ''lac'')) (the (f ''cid'')) (the (f ''psc''))))
 \<and> (first_missing cellkey_names f = None) = (set cellkey_names \<subseteq> dom f)
 \<and> (first_missing cellkey_psc_names f = None) = (set cellkey_psc_names \<subseteq> dom f)"
  using to_cellkey_Dict [of f] to_cellkey_Object [of f] to_cellkey_psc_Dict [of f]
    to_cellkey_psc_Object [of f] first_missing_None [of cellkey_names f]
    first_missing_None [of cellkey_psc_names f]
  by (simp only: simp_thms)

text \<open>
  C3 as stated fails: with no field at all, a dict raises \<^verbatim>\<open>KeyError\<close> and an object
  raises \<^verbatim>\<open>AttributeError\<close>, so the error depends on the shape of the source; the same
  holds when only psc is missing.
\<close>

theorem to_cellkey_error_depends_on_shape:
  "to_cellkey (Dict Map.empty) = Inl (KeyError ''radio'')
 \<and> to_cellkey (Object Map.empty) = Inl (AttributeError ''radio'')
 \<and> to_cellkey (Dict Map.empty) \<noteq> to_cellkey (Object Map.empty)
 \<and> to_cellkey_psc (Dict (example_fields(''psc'' := None))) = Inl (KeyError ''psc'')
 \<and> to_cellkey_psc (Object (example_fields(''psc'' := None))) = Inl (AttributeError ''psc'')"
  by (simp add: to_cellkey_def to_cellkey_psc_def example_fields_def getitem_def getattr_def
      bind_result_def)

subsection \<open>The join criterion\<close>

text \<open>
  Every model of this file inherits \<^verbatim>\<open>CellAreaKeyMixin\<close>, so it has the columns radio,
  mcc, mnc and lac. On such a model the criterion is the following list.
\<close>

lemma join_cellkey_eval:
  assumes "set CellAreaKeyMixin \<subseteq> set (columns m)"
  shows "join_cellkey m k = Inr (
      [Eq (Column (tablename m) ''radio'') (the (key_fields k ''radio'')),
       Eq (Column (tablename m) ''mcc'') (the (key_fields k ''mcc'')),
       Eq (Column (tablename m) ''mnc'') (the (key_fields k ''mnc'')),
       Eq (Column (tablename m) ''lac'') (the (key_fields k ''lac''))]
      @ (if isinstance_CellKeyPsc k \<and> ''psc'' \<in> set (columns m)
         then [Eq (Column (tablename m) ''psc'') (the (key_fields k ''psc''))] else [])
      @ (if ''cid'' \<in> set (columns m) \<and> key_hasattr k ''cid''
         then [Eq (Column (tablename m) ''cid'') (the (key_fields k ''cid''))] else []))"
  using assms
  by (cases k) (simp_all add: CellAreaKeyMixin_def join_cellkey_def model_getattr_def
      model_attr_def model_hasattr_def key_getattr_def key_hasattr_def getattr_def bind_result_def)

text \<open>A class without a radio attribute is no cell model: reading it raises.\<close>

lemma join_cellkey_no_radio:
  "''radio'' \<notin> set (columns m) \<Longrightarrow> join_cellkey m k = Inl (AttributeError ''radio'')"
  by (simp add: join_cellkey_def model_getattr_def model_attr_def bind_result_def)

text \<open>
  C1. For every model with the area key columns and every key, \<^verbatim>\<open>join_cellkey\<close> returns
  a criterion, never an error. It contains the comparisons of radio, mcc, mnc and lac with
  the key's values; a comparison of psc exactly when the key is a CellKeyPsc and the
  model has a psc column; a comparison of cid exactly when the model has a cid column and
  the key has a cid field; and nothing but comparisons of these six columns with the
  key's values.
\<close>

theorem join_cellkey_conditions:
  assumes "set CellAreaKeyMixin \<subseteq> set (columns m)"
  shows "\<exists>cs. join_cellkey m k = Inr cs
     \<and> Eq (Column (tablename m) ''radio'') (the (key_fields k ''radio'')) \<in> set cs
     \<and> Eq (Column (tablename m) ''mcc'') (the (key_fields k ''mcc'')) \<in> set cs
     \<and> Eq (Column (tablename m) ''mnc'') (the (key_fields k ''mnc'')) \<in> set cs
     \<and> Eq (Column (tablename m) ''lac'') (the (key_fields k ''lac'')) \<in> set cs
     \<and> ((\<exists>v. Eq (Column (tablename m) ''psc'') v \<in> set cs)
          \<longleftrightarrow> (isinstance_CellKeyPsc k \<and> ''psc'' \<in> set (columns m)))
     \<and> ((\<exists>v. Eq (Column (tablename m) ''cid'') v \<in> set cs)
          \<longleftrightarrow> (''cid'' \<in> set (columns m) \<and> key_hasattr k ''cid''))
     \<and> (\<forall>c \<in> set cs. \<exists>n \<in> set cellkey_psc_names.
           c = Eq (Column (tablename m) n) (the (key_fields k n)))"
  unfolding join_cellkey_eval [OF assms]
  by (auto simp: cellkey_psc_names_def)

theorem join_cellkey_conditions_witness:
  "set CellAreaKeyMixin \<subseteq> set (columns CellArea)
 \<and> join_cellkey CellArea (CellKeyPsc (PInt 1) (PInt 204) (PInt 10) (PInt 1234) (PInt 0) (PInt 5)) =
     Inr [Eq (Column ''cell_area'' ''radio'') (PInt 1), Eq (Column ''cell_area'' ''mcc'') (PInt 204),
          Eq (Column ''cell_area'' ''mnc'') (PInt 10), Eq (Column ''cell_area'' ''lac'') (PInt 1234)]
 \<and> (\<exists>cs. join_cellkey CellArea (CellKeyPsc (PInt 1) (PInt 204) (PInt 10) (PInt 1234) (PInt 0) (PInt 5)) = Inr cs
     \<and> Eq (Column (tablename CellArea) ''radio'') (the (key_fields (CellKeyPsc (PInt 1) (PInt 204) (PInt 10) (PInt 1234) (PInt 0) (PInt 5)) ''radio'')) \<in> set cs
     \<and> Eq (Column (tablename CellArea) ''mcc'') (the (key_fields (CellKeyPsc (PInt 1) (PInt 204) (PInt 10) (PInt 1234) (PInt 0) (PInt 5)) ''mcc'')) \<in> set cs
     \<and> Eq (Column (tablename CellArea) ''mnc'') (the (key_fields (CellKeyPsc (PInt 1) (PInt 204) (PInt 10) (PInt 1234) (PInt 0) (PInt 5)) ''mnc'')) \<in> set cs
     \<and> Eq (Column (tablename CellArea) ''lac'') (the (key_fields (CellKeyPsc (PInt 1) (PInt 204) (PInt 10) (PInt 1234) (PInt 0) (PInt 5)) ''lac'')) \<in> set cs
     \<and> ((\<exists>v. Eq (Column (tablename CellArea) ''psc'') v \<in> set cs)
          \<longleftrightarrow> (isinstance_CellKeyPsc (CellKeyPsc (PInt 1) (PInt 204) (PInt 10) (PInt 1234) (PInt 0) (PInt 5)) \<and> ''psc'' \<in> set (columns CellArea)))
     \<and> ((\<exists>v. Eq (Column (tablename CellArea) ''cid'') v \<in> set cs)
          \<longleftrightarrow> (''cid'' \<in> set (columns CellArea) \<and> key_hasattr (CellKeyPsc (PInt 1) (PInt 204) (PInt 10) (PInt 1234) (PInt 0) (PInt 5)) ''cid''))
     \<and> (\<forall>c \<in> set cs. \<exists>n \<in> set cellkey_psc_names.
           c = Eq (Column (tablename CellArea) n) (the (key_fields (CellKeyPsc (PInt 1) (PInt 204) (PInt 10) (PInt 1234) (PInt 0) (PInt 5)) n))))"
proof -
  have h: "set CellAreaKeyMixin \<subseteq> set (columns CellArea)"
    by (auto simp: CellArea_def CellAreaMixin_def)
  have e: "join_cellkey CellArea (CellKeyPsc (PInt 1) (PInt 204) (PInt 10) (PInt 1234) (PInt 0) (PInt 5)) =
     Inr [Eq (Column ''cell_area'' ''radio'') (PInt 1), Eq (Column ''cell_area'' ''mcc'') (PInt 204),
          Eq (Column ''cell_area'' ''mnc'') (PInt 10), Eq (Column ''cell_area'' ''lac'') (PInt 1234)]"
    by (simp add: join_cellkey_def CellArea_def CellAreaMixin_def CellAreaKeyMixin_def
        model_getattr_def model_attr_def model_hasattr_def key_getattr_def key_hasattr_def
        getattr_def bind_result_def)
  from h e join_cellkey_conditions [OF h, of "(CellKeyPsc (PInt 1) (PInt 204) (PInt 10) (PInt 1234) (PInt 0) (PInt 5))"]
  show ?thesis by blast
qed

text \<open>
  C10. For every model with the area key columns and every key, the criterion has at
  least four and at most six comparisons, in a fixed order: radio, mcc, mnc, lac, then
  psc if present, then cid if present.
\<close>

theorem join_cellkey_order:
  assumes "set CellAreaKeyMixin \<subseteq> set (columns m)"
  shows "\<exists>cs. join_cellkey m k = Inr cs \<and> 4 \<le> length cs \<and> length cs \<le> 6
     \<and> cs =
        [Eq (Column (tablename m) ''radio'') (the (key_fields k ''radio'')),
         Eq (Column (tablename m) ''mcc'') (the (key_fields k ''mcc'')),
         Eq (Column (tablename m) ''mnc'') (the (key_fields k ''mnc'')),
         Eq (Column (tablename m) ''lac'') (the (key_fields k ''lac''))]
        @ (if isinstance_CellKeyPsc k \<and> ''psc'' \<in> set (columns m)
           then [Eq (Column (tablename m) ''psc'') (the (key_fields k ''psc''))] else [])
        @ (if ''cid'' \<in> set (columns m) \<and> key_hasattr k ''cid''
           then [Eq (Column (tablename m) ''cid'') (the (key_fields k ''cid''))] else [])"
  unfolding join_cellkey_eval [OF assms]
  by simp

theorem join_cellkey_order_witness:
  "set CellAreaKeyMixin \<subseteq> set (columns Cell)
 \<and> join_cellkey Cell (CellKeyPsc (PInt 1) (PInt 204) (PInt 10) (PInt 1234) (PInt 5678) (PInt 99)) =
     Inr [Eq (Column ''cell'' ''radio'') (PInt 1), Eq (Column ''cell'' ''mcc'') (PInt 204),
          Eq (Column ''cell'' ''mnc'') (PInt 10), Eq (Column ''cell'' ''lac'') (PInt 1234),
          Eq (Column ''cell'' ''psc'') (PInt 99), Eq (Column ''cell'' ''cid'') (PInt 5678)]
 \<and> (\<exists>cs. join_cellkey Cell (CellKeyPsc (PInt 1) (PInt 204) (PInt 10) (PInt 1234) (PInt 5678) (PInt 99)) = Inr cs \<and> 4 \<le> length cs \<and> length cs \<le> 6)"
proof -
  have h: "set CellAreaKeyMixin \<subseteq> set (columns Cell)"
    by (auto simp: Cell_def CellKeyPscMixin_def CellKeyMixin_def)
  have e: "join_cellkey Cell (CellKeyPsc (PInt 1) (PInt 204) (PInt 10) (PInt 1234) (PInt 5678) (PInt 99)) =
     Inr [Eq (Column ''cell'' ''radio'') (PInt 1), Eq (Column ''cell'' ''mcc'') (PInt 204),
          Eq (Column ''cell'' ''mnc'') (PInt 10), Eq (Column ''cell'' ''lac'') (PInt 1234),
          Eq (Column ''cell'' ''psc'') (PInt 99), Eq (Column ''cell'' ''cid'') (PInt 5678)]"
    by (simp add: join_cellkey_def Cell_def CellKeyPscMixin_def CellKeyMixin_def CellAreaKeyMixin_def
        model_getattr_def model_attr_def model_hasattr_def key_getattr_def key_hasattr_def
        getattr_def bind_result_def)
  from h e join_cellkey_order [OF h, of "(CellKeyPsc (PInt 1) (PInt 204) (PInt 10) (PInt 1234) (PInt 5678) (PInt 99))"]
  show ?thesis by blast
qed

subsection \<open>The entity constructors\<close>

lemma default_if_absent_apply:
  "default_if_absent n v kw x = (if x = n \<and> kw n = None then Some v else kw x)"
  by (simp add: default_if_absent_def)

lemma default_zero_if_falsy_apply:
  "default_zero_if_falsy n kw x =
     (if x = n then (case kw n of None \<Rightarrow> Some (PInt 0)
                     | Some v \<Rightarrow> if truthy v then Some v else Some (PInt 0))
      else kw x)"
  by (simp add: default_zero_if_falsy_def split: option.splits)

lemma default_utcnow_pair:
  "default_utcnow n (kw, c) =
     (if kw n = None then (kw(n \<mapsto> PDatetime (shd c)), stl c) else (kw, c))"
  by (simp add: default_utcnow_def utcnow_def)

lemma fst_default_utcnow:
  "fst (default_utcnow n (kw, c)) x =
     (if x = n \<and> kw n = None then Some (PDatetime (shd c)) else kw x)"
  by (simp add: default_utcnow_pair)

lemma fst_default_utcnow_twice:
  "fst (default_utcnow n (default_utcnow n' (kw, c))) x =
     (if x = n \<and> fst (default_utcnow n' (kw, c)) n = None
      then Some (PDatetime (shd (snd (default_utcnow n' (kw, c)))))
      else fst (default_utcnow n' (kw, c)) x)"
  by (metis fst_default_utcnow prod.collapse)

lemma timestamps_keep:
  "x \<noteq> ''created'' \<Longrightarrow> x \<noteq> ''modified'' \<Longrightarrow>
   fst (default_utcnow ''modified'' (default_utcnow ''created'' (kw, c))) x = kw x"
  by (simp add: fst_default_utcnow_twice fst_default_utcnow)

lemma timestamps_fst:
  "fst (default_utcnow ''modified'' (default_utcnow ''created'' (kw, c))) =
     (if kw ''created'' = None
      then (if kw ''modified'' = None
            then kw(''created'' \<mapsto> PDatetime (shd c), ''modified'' \<mapsto> PDatetime (shd (stl c)))
            else kw(''created'' \<mapsto> PDatetime (shd c)))
      else (if kw ''modified'' = None then kw(''modified'' \<mapsto> PDatetime (shd c)) else kw))"
  by (simp add: default_utcnow_pair)

lemma timestamps_supplied:
  "kw n \<noteq> None \<Longrightarrow> kw n' \<noteq> None \<Longrightarrow>
   default_utcnow n' (default_utcnow n (kw, c)) = (kw, c)"
  by (auto simp: default_utcnow_pair)

lemma timestamps_same_readings:
  "shd c1 = shd c2 \<Longrightarrow> shd (stl c1) = shd (stl c2) \<Longrightarrow>
   fst (default_utcnow ''modified'' (default_utcnow ''created'' (kw, c1))) =
   fst (default_utcnow ''modified'' (default_utcnow ''created'' (kw, c2)))"
  by (simp only: timestamps_fst)

lemma fst_Cell_init:
  "fst (Cell_init c kw) =
     default_if_absent ''total_measures'' (PInt 0)
       (default_if_absent ''new_measures'' (PInt 0)
         (default_if_absent ''range'' (PInt 0)
           (default_zero_if_falsy ''cid''
             (default_zero_if_falsy ''lac''
               (fst (default_utcnow ''modified'' (default_utcnow ''created'' (kw, c))))))))"
  by (simp add: Cell_init_def split: prod.splits)

lemma fst_OCIDCell_init:
  "fst (OCIDCell_init c kw) =
     default_if_absent ''changeable'' (PBool True)
       (default_if_absent ''total_measures'' (PInt 0)
         (default_if_absent ''range'' (PInt 0)
           (default_zero_if_falsy ''cid''
             (default_zero_if_falsy ''lac''
               (fst (default_utcnow ''modified'' (default_utcnow ''created'' (kw, c))))))))"
  by (simp add: OCIDCell_init_def split: prod.splits)

lemma fst_CellArea_init:
  "fst (CellArea_init c kw) =
     default_if_absent ''num_cells'' (PInt 0)
       (default_if_absent ''avg_cell_range'' (PInt 0)
         (default_if_absent ''range'' (PInt 0)
           (fst (default_utcnow ''modified'' (default_utcnow ''created'' (kw, c))))))"
  by (simp add: CellArea_init_def split: prod.splits)

lemma fst_OCIDCellArea_init:
  "fst (OCIDCellArea_init c kw) =
     default_if_absent ''num_cells'' (PInt 0)
       (default_if_absent ''avg_cell_range'' (PInt 0)
         (default_if_absent ''range'' (PInt 0)
           (fst (default_utcnow ''modified'' (default_utcnow ''created'' (kw, c))))))"
  by (simp add: OCIDCellArea_init_def split: prod.splits)

lemma fst_CellBlacklist_init:
  "fst (CellBlacklist_init c kw) =
     default_if_absent ''count'' (PInt 1) (fst (default_utcnow ''time'' (kw, c)))"
  by (simp add: CellBlacklist_init_def split: prod.splits)

lemma Cell_lac:
  "fst (Cell_init c kw) ''lac'' =
     (case kw ''lac'' of None \<Rightarrow> Some (PInt 0)
      | Some v \<Rightarrow> if truthy v then Some v else Some (PInt 0))"
  by (simp add: fst_Cell_init default_if_absent_apply default_zero_if_falsy_apply timestamps_keep)

lemma Cell_cid:
  "fst (Cell_init c kw) ''cid'' =
     (case kw ''cid'' of None \<Rightarrow> Some (PInt 0)
      | Some v \<Rightarrow> if truthy v then Some v else Some (PInt 0))"
  by (simp add: fst_Cell_init default_if_absent_apply default_zero_if_falsy_apply timestamps_keep)

lemma OCIDCell_lac:
  "fst (OCIDCell_init c kw) ''lac'' =
     (case kw ''lac'' of None \<Rightarrow> Some (PInt 0)
      | Some v \<Rightarrow> if truthy v then Some v else Some (PInt 0))"
  by (simp add: fst_OCIDCell_init default_if_absent_apply default_zero_if_falsy_apply
      timestamps_keep)

lemma OCIDCell_cid:
  "fst (OCIDCell_init c kw) ''cid'' =
     (case kw ''cid'' of None \<Rightarrow> Some (PInt 0)
      | Some v \<Rightarrow> if truthy v then Some v else Some (PInt 0))"
  by (simp add: fst_OCIDCell_init default_if_absent_apply default_zero_if_falsy_apply
      timestamps_keep)

lemma CellArea_lac: "fst (CellArea_init c kw) ''lac'' = kw ''lac''"
  by (simp add: fst_CellArea_init default_if_absent_apply timestamps_keep)

lemma OCIDCellArea_lac: "fst (OCIDCellArea_init c kw) ''lac'' = kw ''lac''"
  by (simp add: fst_OCIDCellArea_init default_if_absent_apply timestamps_keep)

lemma CellBlacklist_lac: "fst (CellBlacklist_init c kw) ''lac'' = kw ''lac''"
  by (simp add: fst_CellBlacklist_init default_if_absent_apply fst_default_utcnow)

lemma CellBlacklist_cid: "fst (CellBlacklist_init c kw) ''cid'' = kw ''cid''"
  by (simp add: fst_CellBlacklist_init default_if_absent_apply fst_default_utcnow)

text \<open>
  C4, as the code has it. The constructors of Cell and OCIDCell store 0 in lac, and in
  cid, when the field is omitted or its value is falsy, and keep a truthy value. The
  constructors of CellArea, OCIDCellArea and CellBlacklist have no such step: lac and
  cid are stored as supplied, and an omitted field stays unset.
\<close>

theorem lac_cid_defaults:
  "fst (Cell_init c kw) ''lac'' =
     (case kw ''lac'' of None \<Rightarrow> Some (PInt 0)
      | Some v \<Rightarrow> if truthy v then Some v else Some (PInt 0))
 \<and> fst (Cell_init c kw) ''cid'' =
     (case kw ''cid'' of None \<Rightarrow> Some (PInt 0)
      | Some v \<Rightarrow> if truthy v then Some v else Some (PInt 0))
 \<and> fst (OCIDCell_init c kw) ''lac'' =
     (case kw ''lac'' of None \<Rightarrow> Some (PInt 0)
      | Some v \<Rightarrow> if truthy v then Some v else Some (PInt 0))
 \<and> fst (OCIDCell_init c kw) ''cid'' =
     (case kw ''cid'' of None \<Rightarrow> Some (PInt 0)
      | Some v \<Rightarrow> if truthy v then Some v else Some (PInt 0))
 \<and> fst (CellArea_init c kw) ''lac'' = kw ''lac''
 \<and> fst (OCIDCellArea_init c kw) ''lac'' = kw ''lac''
 \<and> fst (CellBlacklist_init c kw) ''lac'' = kw ''lac''
 \<and> fst (CellBlacklist_init c kw) ''cid'' = kw ''cid''"
  using Cell_lac Cell_cid OCIDCell_lac OCIDCell_cid CellArea_lac OCIDCellArea_lac
    CellBlacklist_lac CellBlacklist_cid by blast

text \<open>
  C4 as stated fails for the three other entities: a CellArea created with
  \<^verbatim>\<open>lac=None\<close> keeps \<^verbatim>\<open>None\<close>, one created without lac has no lac, and a CellBlacklist
  created with \<^verbatim>\<open>cid=None\<close> keeps \<^verbatim>\<open>None\<close>; none of them stores 0.
\<close>

theorem area_and_blacklist_keep_falsy:
  "fst (CellArea_init (clock_at 0) [''lac'' \<mapsto> PNone]) ''lac'' = Some PNone
 \<and> fst (CellArea_init (clock_at 0) Map.empty) ''lac'' = None
 \<and> fst (CellBlacklist_init (clock_at 0) [''lac'' \<mapsto> PNone, ''cid'' \<mapsto> PNone]) ''cid''
     = Some PNone
 \<and> Some PNone \<noteq> Some (PInt 0)"
  by (simp add: CellArea_init_def CellBlacklist_init_def default_utcnow_pair default_if_absent_def)

text \<open>
  C6. The constructor of Cell called without arguments stores lac, cid, range,
  new_measures and total_measures as 0, created as the reading of the clock it takes
  first and modified as the reading it takes next, and nothing else.
\<close>

theorem Cell_init_no_arguments:
  "Cell_init c Map.empty =
     ([''created'' \<mapsto> PDatetime (shd c), ''modified'' \<mapsto> PDatetime (shd (stl c)),
       ''lac'' \<mapsto> PInt 0, ''cid'' \<mapsto> PInt 0, ''range'' \<mapsto> PInt 0,
       ''new_measures'' \<mapsto> PInt 0, ''total_measures'' \<mapsto> PInt 0], stl (stl c))"
  by (simp add: Cell_init_def default_utcnow_pair default_if_absent_def default_zero_if_falsy_def)

text \<open>
  C8. The constructor of CellBlacklist called without arguments stores count 1 and, as
  time, the reading of the clock it takes; a count or a time that is supplied is kept.
\<close>

theorem CellBlacklist_init_defaults:
  "CellBlacklist_init c Map.empty =
     ([''time'' \<mapsto> PDatetime (shd c), ''count'' \<mapsto> PInt 1], stl c)
 \<and> fst (CellBlacklist_init c kw) ''count'' =
     (case kw ''count'' of None \<Rightarrow> Some (PInt 1) | Some v \<Rightarrow> Some v)
 \<and> fst (CellBlacklist_init c kw) ''time'' =
     (case kw ''time'' of None \<Rightarrow> Some (PDatetime (shd c)) | Some t \<Rightarrow> Some t)"
  by (simp add: CellBlacklist_init_def default_utcnow_pair default_if_absent_def
      split: option.splits)

lemma to_cellkey_reads:
  "map f cellkey_names = map g cellkey_names \<Longrightarrow>
   to_cellkey (Dict f) = to_cellkey (Dict g) \<and> to_cellkey (Object f) = to_cellkey (Object g)"
  by (simp add: cellkey_names_def to_cellkey_def getitem_def getattr_def)

lemma to_cellkey_psc_reads:
  "map f cellkey_psc_names = map g cellkey_psc_names \<Longrightarrow>
   to_cellkey_psc (Dict f) = to_cellkey_psc (Dict g)
   \<and> to_cellkey_psc (Object f) = to_cellkey_psc (Object g)"
  by (simp add: cellkey_psc_names_def to_cellkey_psc_def getitem_def getattr_def)

lemma join_cellkey_reads:
  assumes "map (model_attr m) cellkey_psc_names = map (model_attr m') cellkey_psc_names"
  shows "join_cellkey m k = join_cellkey m' k"
proof -
  have a: "model_attr m ''radio'' = model_attr m' ''radio''"
    "model_attr m ''mcc'' = model_attr m' ''mcc''"
    "model_attr m ''mnc'' = model_attr m' ''mnc''"
    "model_attr m ''lac'' = model_attr m' ''lac''"
    "model_attr m ''cid'' = model_attr m' ''cid''"
    "model_attr m ''psc'' = model_attr m' ''psc''"
    using assms by (simp_all add: cellkey_psc_names_def)
  show ?thesis
    unfolding join_cellkey_def model_getattr_def model_hasattr_def a ..
qed

lemma latitude_reads:
  "lat s = lat s' \<Longrightarrow> range_meters s = range_meters s' \<Longrightarrow>
   min_lat s = min_lat s' \<and> max_lat s = max_lat s'"
  by (simp add: min_lat_def max_lat_def)

lemma longitude_reads:
  "lat s = lat s' \<Longrightarrow> lon s = lon s' \<Longrightarrow> range_meters s = range_meters s' \<Longrightarrow>
   min_lon s = min_lon s' \<and> max_lon s = max_lon s'"
  by (simp add: min_lon_def max_lon_def)

lemma constructors_same_readings:
  assumes "shd c1 = shd c2" and "shd (stl c1) = shd (stl c2)"
  shows "fst (Cell_init c1 kw) = fst (Cell_init c2 kw)
    \<and> fst (OCIDCell_init c1 kw) = fst (OCIDCell_init c2 kw)
    \<and> fst (CellArea_init c1 kw) = fst (CellArea_init c2 kw)
    \<and> fst (OCIDCellArea_init c1 kw) = fst (OCIDCellArea_init c2 kw)
    \<and> fst (CellBlacklist_init c1 kw) = fst (CellBlacklist_init c2 kw)"
proof -
  have "fst (CellBlacklist_init c1 kw) = fst (CellBlacklist_init c2 kw)"
    using assms(1) by (simp add: fst_CellBlacklist_init default_utcnow_pair)
  then show ?thesis
    using timestamps_same_readings [OF assms, of kw]
    by (simp only: fst_Cell_init fst_OCIDCell_init fst_CellArea_init fst_OCIDCellArea_init
        simp_thms)
qed

lemma constructors_timestamps_supplied:
  assumes "kw ''created'' \<noteq> None" and "kw ''modified'' \<noteq> None"
  shows "fst (Cell_init c1 kw) = fst (Cell_init c2 kw)
    \<and> fst (OCIDCell_init c1 kw) = fst (OCIDCell_init c2 kw)
    \<and> fst (CellArea_init c1 kw) = fst (CellArea_init c2 kw)
    \<and> fst (OCIDCellArea_init c1 kw) = fst (OCIDCellArea_init c2 kw)"
  by (simp add: fst_Cell_init fst_OCIDCell_init fst_CellArea_init fst_OCIDCellArea_init
      timestamps_supplied [OF assms])

lemma blacklist_time_supplied:
  "kw ''time'' \<noteq> None \<Longrightarrow>
   fst (CellBlacklist_init c1 kw) = fst (CellBlacklist_init c2 kw)"
  by (auto simp: fst_CellBlacklist_init default_utcnow_pair)

text \<open>
  C7, as the code has it. A key depends only on the shape of the source and on the
  fields read from it, a criterion only on the key and on the identity attributes of the
  model, and a bounding box only on lat, lon and range: equal inputs give equal outputs.
  The entity constructors also read the clock, so what they store is determined by the
  keyword arguments together with the readings of the clock: equal arguments and equal
  readings give equal stored values, and when the timestamps (created and modified, or
  time for a CellBlacklist) are supplied the stored values are the same for every clock.
\<close>

theorem outputs_determined:
  "(map f cellkey_names = map g cellkey_names \<longrightarrow>
      to_cellkey (Dict f) = to_cellkey (Dict g)
    \<and> to_cellkey (Object f) = to_cellkey (Object g))
 \<and> (map f cellkey_psc_names = map g cellkey_psc_names \<longrightarrow>
      to_cellkey_psc (Dict f) = to_cellkey_psc (Dict g)
    \<and> to_cellkey_psc (Object f) = to_cellkey_psc (Object g))
 \<and> (map (model_attr m) cellkey_psc_names = map (model_attr m') cellkey_psc_names \<longrightarrow>
      join_cellkey m k = join_cellkey m' k)
 \<and> (lat s = lat s' \<and> range_meters s = range_meters s' \<longrightarrow>
      min_lat s = min_lat s' \<and> max_lat s = max_lat s')
 \<and> (lat s = lat s' \<and> lon s = lon s' \<and> range_meters s = range_meters s' \<longrightarrow>
      min_lon s = min_lon s' \<and> max_lon s = max_lon s')
 \<and> (shd c1 = shd c2 \<and> shd (stl c1) = shd (stl c2) \<longrightarrow>
      fst (Cell_init c1 kw) = fst (Cell_init c2 kw)
    \<and> fst (OCIDCell_init c1 kw) = fst (OCIDCell_init c2 kw)
    \<and> fst (CellArea_init c1 kw) = fst (CellArea_init c2 kw)
    \<and> fst (OCIDCellArea_init c1 kw) = fst (OCIDCellArea_init c2 kw)
    \<and> fst (CellBlacklist_init c1 kw) = fst (CellBlacklist_init c2 kw))
 \<and> (kw ''created'' \<noteq> None \<and> kw ''modified'' \<noteq> None \<longrightarrow>
      fst (Cell_init c1 kw) = fst (Cell_init c2 kw)
    \<and> fst (OCIDCell_init c1 kw) = fst (OCIDCell_init c2 kw)
    \<and> fst (CellArea_init c1 kw) = fst (CellArea_init c2 kw)
    \<and> fst (OCIDCellArea_init c1 kw) = fst (OCIDCellArea_init c2 kw))
 \<and> (kw ''time'' \<noteq> None \<longrightarrow>
      fst (CellBlacklist_init c1 kw) = fst (CellBlacklist_init c2 kw))"
proof (intro conjI impI)
  show "to_cellkey (Dict f) = to_cellkey (Dict g)"
    and "to_cellkey (Object f) = to_cellkey (Object g)"
    if "map f cellkey_names = map g cellkey_names"
    using to_cellkey_reads [OF that] by simp_all
  show "to_cellkey_psc (Dict f) = to_cellkey_psc (Dict g)"
    and "to_cellkey_psc (Object f) = to_cellkey_psc (Object g)"
    if "map f cellkey_psc_names = map g cellkey_psc_names"
    using to_cellkey_psc_reads [OF that] by simp_all
  show "join_cellkey m k = join_cellkey m' k"
    if "map (model_attr m) cellkey_psc_names = map (model_attr m') cellkey_psc_names"
    using that by (rule join_cellkey_reads)
  show "min_lat s = min_lat s'" and "max_lat s = max_lat s'"
    if "lat s = lat s' \<and> range_meters s = range_meters s'"
    using that latitude_reads [of s s'] by simp_all
  show "min_lon s = min_lon s'" and "max_lon s = max_lon s'"
    if "lat s = lat s' \<and> lon s = lon s' \<and> range_meters s = range_meters s'"
    using that longitude_reads [of s s'] by simp_all
  show "fst (Cell_init c1 kw) = fst (Cell_init c2 kw)"
    and "fst (OCIDCell_init c1 kw) = fst (OCIDCell_init c2 kw)"
    and "fst (CellArea_init c1 kw) = fst (CellArea_init c2 kw)"
    and "fst (OCIDCellArea_init c1 kw) = fst (OCIDCellArea_init c2 kw)"
    and "fst (CellBlacklist_init c1 kw) = fst (CellBlacklist_init c2 kw)"
    if "shd c1 = shd c2 \<and> shd (stl c1) = shd (stl c2)"
    using constructors_same_readings [of c1 c2 kw] that by (simp_all only: simp_thms)
  show "fst (Cell_init c1 kw) = fst (Cell_init c2 kw)"
    and "fst (OCIDCell_init c1 kw) = fst (OCIDCell_init c2 kw)"
    and "fst (CellArea_init c1 kw) = fst (CellArea_init c2 kw)"
    and "fst (OCIDCellArea_init c1 kw) = fst (OCIDCellArea_init c2 kw)"
    if "kw ''created'' \<noteq> None \<and> kw ''modified'' \<noteq> None"
    using constructors_timestamps_supplied [of kw c1 c2] that by (simp_all only: simp_thms)
  show "fst (CellBlacklist_init c1 kw) = fst (CellBlacklist_init c2 kw)"
    if "kw ''time'' \<noteq> None"
    using that by (rule blacklist_time_supplied)
qed

theorem outputs_determined_witness:
  "map example_fields cellkey_names = map (example_fields(''psc'' := None)) cellkey_names
 \<and> to_cellkey (Dict example_fields) = to_cellkey (Dict (example_fields(''psc'' := None)))
 \<and> to_cellkey (Object example_fields) = to_cellkey (Object (example_fields(''psc'' := None)))
 \<and> map example_fields cellkey_psc_names
     = map (example_fields(''signal'' \<mapsto> PInt 7)) cellkey_psc_names
 \<and> to_cellkey_psc (Dict example_fields)
     = to_cellkey_psc (Dict (example_fields(''signal'' \<mapsto> PInt 7)))
 \<and> map (model_attr Cell) cellkey_psc_names = map (model_attr \<lparr>tablename = ''cell'', columns = ''range'' # CellKeyPscMixin\<rparr>) cellkey_psc_names
 \<and> join_cellkey Cell (CellKeyPsc (PInt 1) (PInt 204) (PInt 10) (PInt 1234) (PInt 5678) (PInt 99)) = join_cellkey \<lparr>tablename = ''cell'', columns = ''range'' # CellKeyPscMixin\<rparr> (CellKeyPsc (PInt 1) (PInt 204) (PInt 10) (PInt 1234) (PInt 5678) (PInt 99))
 \<and> min_lat \<lparr>lat = 0, lon = 10, range_meters = 111320\<rparr> = min_lat \<lparr>lat = 0, lon = 20, range_meters = 111320\<rparr>
 \<and> max_lat \<lparr>lat = 0, lon = 10, range_meters = 111320\<rparr> = max_lat \<lparr>lat = 0, lon = 20, range_meters = 111320\<rparr>
 \<and> min_lon \<lparr>lat = 0, lon = 10, range_meters = 111320\<rparr> = min_lon \<lparr>lat = 0, lon = 10, range_meters = 111320, \<dots> = True\<rparr>
 \<and> max_lon \<lparr>lat = 0, lon = 10, range_meters = 111320\<rparr> = max_lon \<lparr>lat = 0, lon = 10, range_meters = 111320, \<dots> = True\<rparr>
 \<and> shd (clock_at 7) = shd (7 ## 8 ## clock_at 50)
 \<and> shd (stl (clock_at 7)) = shd (stl (7 ## 8 ## clock_at 50))
 \<and> fst (Cell_init (clock_at 7) Map.empty) = fst (Cell_init (7 ## 8 ## clock_at 50) Map.empty)
 \<and> fst (CellBlacklist_init (clock_at 7) Map.empty)
     = fst (CellBlacklist_init (7 ## 8 ## clock_at 50) Map.empty)
 \<and> cell_timestamps ''created'' \<noteq> None \<and> cell_timestamps ''modified'' \<noteq> None
 \<and> fst (Cell_init (clock_at 0) cell_timestamps) = fst (Cell_init (clock_at 100) cell_timestamps)
 \<and> blacklist_time ''time'' \<noteq> None
 \<and> fst (CellBlacklist_init (clock_at 0) blacklist_time)
     = fst (CellBlacklist_init (clock_at 100) blacklist_time)"
proof -
  have h1: "map example_fields cellkey_names
      = map (example_fields(''psc'' := None)) cellkey_names"
    by (simp add: cellkey_names_def)
  have h2: "map example_fields cellkey_psc_names
      = map (example_fields(''signal'' \<mapsto> PInt 7)) cellkey_psc_names"
    by (simp add: cellkey_psc_names_def)
  have h3: "map (model_attr Cell) cellkey_psc_names = map (model_attr \<lparr>tablename = ''cell'', columns = ''range'' # CellKeyPscMixin\<rparr>) cellkey_psc_names"
    by (simp add: cellkey_psc_names_def model_attr_def Cell_def)
  have h4: "lat \<lparr>lat = 0, lon = 10, range_meters = 111320\<rparr> = lat \<lparr>lat = 0, lon = 20, range_meters = 111320\<rparr> \<and> range_meters \<lparr>lat = 0, lon = 10, range_meters = 111320\<rparr> = range_meters \<lparr>lat = 0, lon = 20, range_meters = 111320\<rparr>"
    by simp
  have h5: "lat \<lparr>lat = 0, lon = 10, range_meters = 111320\<rparr> = lat \<lparr>lat = 0, lon = 10, range_meters = 111320, \<dots> = True\<rparr> \<and> lon \<lparr>lat = 0, lon = 10, range_meters = 111320\<rparr> = lon \<lparr>lat = 0, lon = 10, range_meters = 111320, \<dots> = True\<rparr> \<and> range_meters \<lparr>lat = 0, lon = 10, range_meters = 111320\<rparr> = range_meters \<lparr>lat = 0, lon = 10, range_meters = 111320, \<dots> = True\<rparr>"
    by simp
  have h6: "shd (clock_at 7) = shd (7 ## 8 ## clock_at 50)
     \<and> shd (stl (clock_at 7)) = shd (stl (7 ## 8 ## clock_at 50))"
    by (simp add: clock_at_def)
  have h7: "cell_timestamps ''created'' \<noteq> None \<and> cell_timestamps ''modified'' \<noteq> None"
    by (simp add: cell_timestamps_def)
  have h8: "blacklist_time ''time'' \<noteq> None"
    by (simp add: blacklist_time_def)
  note r1 = outputs_determined
    [where f = example_fields and g = "example_fields(''psc'' := None)",
      THEN conjunct1, THEN mp, OF h1]
  note r2 = outputs_determined
    [where f = example_fields and g = "example_fields(''signal'' \<mapsto> PInt 7)",
      THEN conjunct2, THEN conjunct1, THEN mp, OF h2]
  note r3 = outputs_determined
    [where m = Cell and m' = "\<lparr>tablename = ''cell'', columns = ''range'' # CellKeyPscMixin\<rparr>" and k = "(CellKeyPsc (PInt 1) (PInt 204) (PInt 10) (PInt 1234) (PInt 5678) (PInt 99))",
      THEN conjunct2, THEN conjunct2, THEN conjunct1, THEN mp, OF h3]
  note r4 = outputs_determined
    [where s = "\<lparr>lat = 0, lon = 10, range_meters = 111320\<rparr>" and s' = "\<lparr>lat = 0, lon = 20, range_meters = 111320\<rparr>",
      THEN conjunct2, THEN conjunct2, THEN conjunct2, THEN conjunct1, THEN mp, OF h4]
  note r5 = outputs_determined
    [where s = "\<lparr>lat = 0, lon = 10, range_meters = 111320\<rparr>" and s' = "\<lparr>lat = 0, lon = 10, range_meters = 111320, \<dots> = True\<rparr>",
      THEN conjunct2, THEN conjunct2, THEN conjunct2, THEN conjunct2, THEN conjunct1,
      THEN mp, OF h5]
  note r6 = outputs_determined
    [where ?c1.0 = "clock_at 7" and ?c2.0 = "7 ## 8 ## clock_at 50" and kw = Map.empty,
      THEN conjunct2, THEN conjunct2, THEN conjunct2, THEN conjunct2, THEN conjunct2,
      THEN conjunct1, THEN mp, OF h6]
  note r7 = outputs_determined
    [where ?c1.0 = "clock_at 0" and ?c2.0 = "clock_at 100" and kw = cell_timestamps,
      THEN conjunct2, THEN conjunct2, THEN conjunct2, THEN conjunct2, THEN conjunct2,
      THEN conjunct2, THEN conjunct1, THEN mp, OF h7]
  note r8 = outputs_determined
    [where ?c1.0 = "clock_at 0" and ?c2.0 = "clock_at 100" and kw = blacklist_time,
      THEN conjunct2, THEN conjunct2, THEN conjunct2, THEN conjunct2, THEN conjunct2,
      THEN conjunct2, THEN conjunct2, THEN mp, OF h8]
  show ?thesis
    by (intro conjI)
      (rule h1 h2 h3 h6 [THEN conjunct1] h6 [THEN conjunct2] h7 [THEN conjunct1]
        h7 [THEN conjunct2] h8 r1 [THEN conjunct1] r1 [THEN conjunct2] r2 [THEN conjunct1] r3
        r4 [THEN conjunct1] r4 [THEN conjunct2] r5 [THEN conjunct1] r5 [THEN conjunct2]
        r6 [THEN conjunct1]
        r6 [THEN conjunct2, THEN conjunct2, THEN conjunct2, THEN conjunct2]
        r7 [THEN conjunct1] r8)+
qed

text \<open>
  C7 as stated fails: two calls of the Cell constructor with the same, empty, arguments
  store different values of created when the clock has moved between them.
\<close>

theorem Cell_init_depends_on_clock:
  "fst (Cell_init (clock_at 0) Map.empty) ''created''
     \<noteq> fst (Cell_init (clock_at 1) Map.empty) ''created''"
  by (simp add: fst_Cell_init default_if_absent_apply default_zero_if_falsy_apply
      fst_default_utcnow_twice fst_default_utcnow clock_at_def)

subsection \<open>The bounding box\<close>

text \<open>
  C5. Where the cosine of the latitude does not vanish, the bounding box of an OCIDCell
  is symmetric about its centre: the minimal and maximal latitude are the latitude minus
  and plus the range divided by the meters per degree of latitude, and the minimal and
  maximal longitude are the longitude minus and plus the range divided by the meters per
  degree of latitude times the cosine of the latitude.
\<close>

theorem ocid_cell_bounding_box:
  assumes "cos (lat self * pi / 180) \<noteq> 0"
  shows "min_lat self = lat self - real_of_int (range_meters self) / meters_per_degree_latitude
       \<and> max_lat self = lat self + real_of_int (range_meters self) / meters_per_degree_latitude
       \<and> min_lon self = Inr (lon self - real_of_int (range_meters self)
                                 / (meters_per_degree_latitude * cos (lat self * pi / 180)))
       \<and> max_lon self = Inr (lon self + real_of_int (range_meters self)
                                 / (meters_per_degree_latitude * cos (lat self * pi / 180)))
       \<and> lat self - min_lat self = max_lat self - lat self"
  using assms
  by (simp add: min_lat_def max_lat_def min_lon_def max_lon_def add_meters_to_latitude_def
      add_meters_to_longitude_def meters_per_degree_latitude_def)

theorem ocid_cell_bounding_box_witness:
  "cos (lat \<lparr>lat = 0, lon = 10, range_meters = 111320\<rparr> * pi / 180) \<noteq> 0
 \<and> min_lat \<lparr>lat = 0, lon = 10, range_meters = 111320\<rparr> = -1
 \<and> max_lat \<lparr>lat = 0, lon = 10, range_meters = 111320\<rparr> = 1
 \<and> min_lon \<lparr>lat = 0, lon = 10, range_meters = 111320\<rparr> = Inr 9
 \<and> max_lon \<lparr>lat = 0, lon = 10, range_meters = 111320\<rparr> = Inr 11"
proof -
  have h: "cos (lat \<lparr>lat = 0, lon = 10, range_meters = 111320\<rparr> * pi / 180) \<noteq> 0"
    by simp
  from ocid_cell_bounding_box [OF h] h show ?thesis
    by (simp add: meters_per_degree_latitude_def)
qed

end
